theory Spec2Isabelle
  imports Main
begin

section \<open>JavaScript values\<close>

text \<open>
  The payloads of packets and the argument of \<open>emit\<close> are typed \<open>any\<close> in the source.
  They are modelled by the JSON-like values below. Numbers are the integers and \<open>NaN\<close>:
  of a number the code tests only whether it is truthy, and the falsy numbers are \<open>0\<close>
  and \<open>NaN\<close>. An absent optional argument is \<open>Undefined\<close>.
\<close>

datatype jsval =
    Undefined
  | Null
  | Bool bool
  | Num int
  | NaN
  | Str string
  | Arr "jsval list"
  | Obj "(string \<times> jsval) list"

text \<open>What \<open>if (v)\<close> tests: JavaScript's ToBoolean.\<close>

fun truthy :: "jsval \<Rightarrow> bool" where
  "truthy Undefined = False"
| "truthy Null = False"
| "truthy (Bool b) = b"
| "truthy (Num n) = (n \<noteq> 0)"
| "truthy NaN = False"
| "truthy (Str s) = (s \<noteq> [])"
| "truthy (Arr xs) = True"
| "truthy (Obj kvs) = True"

section \<open>EventEmitter (src/index.ts, lines 29-52)\<close>

text \<open>
  \<open>interface EventEmitterEvent { event: string; func: Function }\<close>.
  A callback is a value of an arbitrary type \<open>'f\<close>: the model records which callbacks
  are called, in which order and with which arguments.
\<close>

record 'f EventEmitterEvent =
  event :: string
  func :: 'f

record 'f EventEmitter =
  events :: "'f EventEmitterEvent list"

text \<open>\<open>on(event, func)\<close>: \<open>this.events.push({event, func})\<close>.\<close>

definition EventEmitter_on ::
  "string \<Rightarrow> 'f \<Rightarrow> ('f, 'm) EventEmitter_scheme \<Rightarrow> ('f, 'm) EventEmitter_scheme" where
  "EventEmitter_on ev f e = e\<lparr>events := events e @ [\<lparr>event = ev, func = f\<rparr>]\<rparr>"

text \<open>
  A callback is code of the caller and may throw. Whether the call of a callback with
  a given argument list throws is a parameter of the model, \<open>throws f as\<close>.
  An emission is what one \<open>emit\<close> does: the calls it makes, first call first (a call
  is the callback and its argument list), and whether it ends by an exception.
\<close>

record 'f emission =
  calls :: "('f \<times> jsval list) list"
  threw :: bool

text \<open>
  \<open>array.forEach((element) => { if (args) element.func(args); else element.func(); })\<close>.
  There is no \<open>try\<close> around the call: an exception of a callback ends the loop and
  leaves \<open>emit\<close>, and the elements after it are not called.
\<close>

fun forEach_call ::
  "('f \<Rightarrow> jsval list \<Rightarrow> bool) \<Rightarrow> jsval \<Rightarrow> 'f EventEmitterEvent list \<Rightarrow> 'f emission" where
  "forEach_call throws args [] = \<lparr>calls = [], threw = False\<rparr>"
| "forEach_call throws args (element # rest) =
     (let call = (if truthy args then (func element, [args]) else (func element, []))
      in if throws (fst call) (snd call)
         then \<lparr>calls = [call], threw = True\<rparr>
         else (let r = forEach_call throws args rest in r\<lparr>calls := call # calls r\<rparr>))"

text \<open>
  \<open>emit(event, args?)\<close>: filters the registrations whose name equals \<open>event\<close> and calls
  each, in the order of the array, with \<open>args\<close> when \<open>args\<close> is truthy and with no
  argument otherwise.
\<close>

definition EventEmitter_emit ::
  "('f \<Rightarrow> jsval list \<Rightarrow> bool) \<Rightarrow> string \<Rightarrow> jsval \<Rightarrow> ('f, 'm) EventEmitter_scheme \<Rightarrow> 'f emission" where
  "EventEmitter_emit throws ev args e =
     (let array = filter (\<lambda>x. event x = ev) (events e)
      in forEach_call throws args array)"

text \<open>A sequence of registrations, performed in order by \<open>on\<close>.\<close>

fun subscribe_all ::
  "(string \<times> 'f) list \<Rightarrow> ('f, 'm) EventEmitter_scheme \<Rightarrow> ('f, 'm) EventEmitter_scheme" where
  "subscribe_all [] e = e"
| "subscribe_all (r # rs) e = subscribe_all rs (EventEmitter_on (fst r) (snd r) e)"

text \<open>The argument list \<open>emit(event, args)\<close> passes to a callback.\<close>

definition passed :: "jsval \<Rightarrow> jsval list" where
  "passed args = (if truthy args then [args] else [])"

text \<open>No subscriber of \<open>ev\<close> throws when \<open>emit(ev, args)\<close> calls it.\<close>

definition none_throws ::
  "('f \<Rightarrow> jsval list \<Rightarrow> bool) \<Rightarrow> string \<Rightarrow> jsval \<Rightarrow> ('f, 'm) EventEmitter_scheme \<Rightarrow> bool" where
  "none_throws throws ev args e =
     list_all (\<lambda>x. \<not> throws (func x) (passed args)) (filter (\<lambda>x. event x = ev) (events e))"

section \<open>Packets and the WebsocketManager\<close>

text \<open>
  A packet as the code builds it: \<open>{ id?, command, data }\<close>. The field \<open>id\<close> is
  \<open>None\<close> when the object literal has no \<open>id\<close> key.
\<close>

record packet =
  id_pkt :: "int option"
  command :: string
  data :: jsval

text \<open>
  \<open>WebsocketManager\<close> is imported from \<open>./WebsocketManager\<close>, which is not among the
  sources. The members the code uses are parameters of the model: the manager's state
  is a value of an arbitrary type \<open>'w\<close>, \<open>new_manager\<close> is the state after
  \<open>new WebsocketManager(client)\<close>, \<open>messageID\<close> reads the property of that name
  (a number), and \<open>send\<close>, \<open>connect\<close> and \<open>disconnect\<close> are the effects of the
  methods on the manager. The methods are taken to return normally and to leave the
  fields of the client alone.
\<close>

record 'w WebsocketManager =
  new_manager :: 'w
  messageID :: "'w \<Rightarrow> int"
  send :: "packet \<Rightarrow> 'w \<Rightarrow> 'w"
  connect :: "'w \<Rightarrow> 'w"
  disconnect :: "'w \<Rightarrow> 'w"

text \<open>
  Modelled from the spec: a manager to evaluate the code with, standing for the missing
  \<open>./WebsocketManager\<close>. Its state is the message-id counter: ids are integers
  counted up from a fixed base, a send that carries an id uses one up, and \<open>connect\<close>
  resets the counter (spec, 4.1).
\<close>

definition counting_manager :: "int WebsocketManager" where
  "counting_manager =
     \<lparr>new_manager = 0,
      messageID = (\<lambda>n. n),
      send = (\<lambda>p n. case id_pkt p of None \<Rightarrow> n | Some i \<Rightarrow> n + 1),
      connect = (\<lambda>n. 0),
      disconnect = (\<lambda>n. n)\<rparr>"

section \<open>Client, ClientUser and Room (src/index.ts)\<close>

record Handling =
  arr :: string
  das :: string
  sdf :: string
  safelock :: bool

text \<open>\<open>class Room { public id?: string }\<close>: \<open>None\<close> is \<open>undefined\<close>.\<close>

record Room =
  id_room :: "string option"

text \<open>
  \<open>class Client extends EventEmitter\<close>. \<open>token\<close> is \<open>None\<close> until \<open>login\<close> assigns it.
  The Client, its Room and its ClientUser hold the same WebsocketManager object, so the
  model keeps the one manager in the field \<open>ws\<close> and the methods of the three classes
  act on the client's state. \<open>outbound\<close> is not a field of the source: it lists the
  packets handed to \<open>ws.send\<close>, oldest first.
\<close>

record ('f, 'w) Client = "'f EventEmitter" +
  ws :: 'w
  token :: "string option"
  room :: Room
  handling :: Handling
  outbound :: "packet list"

text \<open>One call \<open>this.ws.send(p)\<close>.\<close>

definition ws_send ::
  "'w WebsocketManager \<Rightarrow> packet \<Rightarrow> ('f, 'w) Client \<Rightarrow> ('f, 'w) Client" where
  "ws_send W p c = c\<lparr>ws := send W p (ws c), outbound := outbound c @ [p]\<rparr>"

text \<open>
  The constructor. Its parameter has a default value, used when the argument is absent
  (\<open>None\<close>): \<open>handling: Handling = { arr: "1", das: "1", sdf: "5", safelock: true }\<close>.
\<close>

definition Client_new :: "'w WebsocketManager \<Rightarrow> Handling option \<Rightarrow> ('f, 'w) Client" where
  "Client_new W h =
     \<lparr>events = [],
      ws = new_manager W,
      token = None,
      room = \<lparr>id_room = None\<rparr>,
      handling = (case h of
                    None \<Rightarrow> \<lparr>arr = ''1'', das = ''1'', sdf = ''5'', safelock = True\<rparr>
                  | Some x \<Rightarrow> x),
      outbound = []\<rparr>"

definition Client_login ::
  "'w WebsocketManager \<Rightarrow> string \<Rightarrow> ('f, 'w) Client \<Rightarrow> ('f, 'w) Client" where
  "Client_login W tok c = (let c1 = c\<lparr>token := Some tok\<rparr> in c1\<lparr>ws := connect W (ws c1)\<rparr>)"

text \<open>
  \<open>leaveRoom()\<close>: sends \<open>{ id: this.ws.messageID, command: "leaveroom", data: false }\<close>,
  then \<open>this.room.id = undefined\<close>.
\<close>

definition Client_leaveRoom :: "'w WebsocketManager \<Rightarrow> ('f, 'w) Client \<Rightarrow> ('f, 'w) Client" where
  "Client_leaveRoom W c =
     (let c1 = ws_send W \<lparr>id_pkt = Some (messageID W (ws c)), command = ''leaveroom'',
                          data = Bool False\<rparr> c
      in c1\<lparr>room := (room c1)\<lparr>id_room := None\<rparr>\<rparr>)"

text \<open>\<open>if (this.room.id)\<close>: an id that is \<open>undefined\<close> or the empty string is falsy.\<close>

fun truthy_id :: "string option \<Rightarrow> bool" where
  "truthy_id None = False"
| "truthy_id (Some s) = (s \<noteq> [])"

text \<open>
  \<open>joinRoom(room)\<close>: \<open>if (this.room.id) this.leaveRoom()\<close>, then sends
  \<open>{ id: this.ws.messageID, command: "joinroom", data: room }\<close>, then
  \<open>this.room.id = room\<close>.
\<close>

definition Client_joinRoom ::
  "'w WebsocketManager \<Rightarrow> string \<Rightarrow> ('f, 'w) Client \<Rightarrow> ('f, 'w) Client" where
  "Client_joinRoom W r c =
     (let c1 = (if truthy_id (id_room (room c)) then Client_leaveRoom W c else c);
          c2 = ws_send W \<lparr>id_pkt = Some (messageID W (ws c1)), command = ''joinroom'',
                          data = Str r\<rparr> c1
      in c2\<lparr>room := (room c2)\<lparr>id_room := Some r\<rparr>\<rparr>)"

definition Client_destroy :: "'w WebsocketManager \<Rightarrow> ('f, 'w) Client \<Rightarrow> ('f, 'w) Client" where
  "Client_destroy W c = c\<lparr>ws := disconnect W (ws c)\<rparr>"

subsection \<open>ClientUser\<close>

text \<open>\<open>message(user, message)\<close>: a \<open>social.dm\<close> packet, built without an \<open>id\<close> key.\<close>

definition ClientUser_message ::
  "'w WebsocketManager \<Rightarrow> string \<Rightarrow> string \<Rightarrow> ('f, 'w) Client \<Rightarrow> ('f, 'w) Client" where
  "ClientUser_message W user message c =
     ws_send W \<lparr>id_pkt = None, command = ''social.dm'',
                data = Obj [(''recipient'', Str user), (''msg'', Str message)]\<rparr> c"

datatype status = Online | Away | Busy | Invisible

fun status_string :: "status \<Rightarrow> string" where
  "status_string Online = ''online''"
| "status_string Away = ''away''"
| "status_string Busy = ''busy''"
| "status_string Invisible = ''invisible''"

text \<open>The argument of \<open>setPresence\<close>: \<open>{ status, detail }\<close>, \<open>detail\<close> any string.\<close>

record Presence =
  status :: status
  detail :: string

definition Presence_object :: "Presence \<Rightarrow> jsval" where
  "Presence_object options =
     Obj [(''status'', Str (status_string (status options))), (''detail'', Str (detail options))]"

definition ClientUser_setPresence ::
  "'w WebsocketManager \<Rightarrow> Presence \<Rightarrow> ('f, 'w) Client \<Rightarrow> ('f, 'w) Client" where
  "ClientUser_setPresence W options c =
     ws_send W \<lparr>id_pkt = None, command = ''social.presence'', data = Presence_object options\<rparr> c"

definition ClientUser_invite ::
  "'w WebsocketManager \<Rightarrow> string \<Rightarrow> ('f, 'w) Client \<Rightarrow> ('f, 'w) Client" where
  "ClientUser_invite W user c =
     ws_send W \<lparr>id_pkt = None, command = ''social.invite'', data = Str user\<rparr> c"

subsection \<open>Room\<close>

datatype bracket = Player | Spectator

fun bracket_string :: "bracket \<Rightarrow> string" where
  "bracket_string Player = ''player''"
| "bracket_string Spectator = ''spectator''"

text \<open>\<open>message(msg)\<close>: the whole body is the send; the method tests nothing.\<close>

definition Room_message ::
  "'w WebsocketManager \<Rightarrow> string \<Rightarrow> ('f, 'w) Client \<Rightarrow> ('f, 'w) Client" where
  "Room_message W msg c =
     ws_send W \<lparr>id_pkt = Some (messageID W (ws c)), command = ''chat'', data = Str msg\<rparr> c"

definition Room_selfMode ::
  "'w WebsocketManager \<Rightarrow> bracket \<Rightarrow> ('f, 'w) Client \<Rightarrow> ('f, 'w) Client" where
  "Room_selfMode W mode c =
     ws_send W \<lparr>id_pkt = Some (messageID W (ws c)), command = ''switchbracket'',
                data = Str (bracket_string mode)\<rparr> c"

definition Room_setMode ::
  "'w WebsocketManager \<Rightarrow> string \<Rightarrow> bracket \<Rightarrow> ('f, 'w) Client \<Rightarrow> ('f, 'w) Client" where
  "Room_setMode W user mode c =
     ws_send W \<lparr>id_pkt = Some (messageID W (ws c)), command = ''switchbrackethost'',
                data = Obj [(''uid'', Str user), (''bracket'', Str (bracket_string mode))]\<rparr> c"

text \<open>\<open>setConfig(options)\<close>, \<open>options\<close> an array of \<open>{ index: string, value: any }\<close>.\<close>

definition Room_setConfig ::
  "'w WebsocketManager \<Rightarrow> (string \<times> jsval) list \<Rightarrow> ('f, 'w) Client \<Rightarrow> ('f, 'w) Client" where
  "Room_setConfig W options c =
     ws_send W \<lparr>id_pkt = Some (messageID W (ws c)), command = ''updateconfig'',
                data = Arr (map (\<lambda>x. Obj [(''index'', Str (fst x)), (''value'', snd x)]) options)\<rparr> c"

subsection \<open>Sequences of calls\<close>

text \<open>The methods a caller can invoke on a client, its user and its room.\<close>

datatype action =
    Login string
  | JoinRoom string
  | LeaveRoom
  | Destroy
  | DirectMessage string string
  | SetPresence Presence
  | Invite string
  | Chat string
  | SelfMode bracket
  | SetMode string bracket
  | SetConfig "(string \<times> jsval) list"

fun perform :: "'w WebsocketManager \<Rightarrow> action \<Rightarrow> ('f, 'w) Client \<Rightarrow> ('f, 'w) Client" where
  "perform W (Login tok) c = Client_login W tok c"
| "perform W (JoinRoom r) c = Client_joinRoom W r c"
| "perform W LeaveRoom c = Client_leaveRoom W c"
| "perform W Destroy c = Client_destroy W c"
| "perform W (DirectMessage u m) c = ClientUser_message W u m c"
| "perform W (SetPresence p) c = ClientUser_setPresence W p c"
| "perform W (Invite u) c = ClientUser_invite W u c"
| "perform W (Chat m) c = Room_message W m c"
| "perform W (SelfMode b) c = Room_selfMode W b c"
| "perform W (SetMode u b) c = Room_setMode W u b c"
| "perform W (SetConfig os) c = Room_setConfig W os c"

fun run :: "'w WebsocketManager \<Rightarrow> action list \<Rightarrow> ('f, 'w) Client \<Rightarrow> ('f, 'w) Client" where
  "run W [] c = c"
| "run W (a # as) c = run W as (perform W a c)"

text \<open>The local state of the session and its room: handling, token and \<open>Room.id\<close>.\<close>

definition local_state :: "('f, 'w) Client \<Rightarrow> Handling \<times> string option \<times> string option" where
  "local_state c = (handling c, token c, id_room (room c))"

section \<open>ClientUser (src/unnamed/part_000)\<close>

text \<open>
  The manager as this file uses it, \<open>this.client.ws\<close>: the property \<open>clientId\<close> and the
  method \<open>send_packet\<close>, parameters of the model as above.
\<close>

record 'w PacketManager =
  clientId :: "'w \<Rightarrow> int"
  send_packet :: "packet \<Rightarrow> 'w \<Rightarrow> 'w"

text \<open>
  Modelled from the spec: the counting manager again, for the names of this file.
\<close>

definition counting_packet_manager :: "int PacketManager" where
  "counting_packet_manager =
     \<lparr>clientId = (\<lambda>n. n),
      send_packet = (\<lambda>p n. case id_pkt p of None \<Rightarrow> n | Some i \<Rightarrow> n + 1)\<rparr>"

text \<open>
  \<open>class ClientUser extends User\<close> with the fields \<open>handling\<close> and \<open>room?\<close>; \<open>client_ws\<close>
  is \<open>this.client.ws\<close>, which the methods reach through \<open>?.\<close>, so it may be undefined
  (\<open>None\<close>). \<open>Room\<close> is imported from \<open>../room/Room\<close>, which is not among the
  sources; the record \<open>Room\<close> above stands for it. \<open>sent_user\<close> lists the packets
  handed to \<open>send_packet\<close>, oldest first.
\<close>

record 'w ClientUser =
  handling_user :: Handling
  room_user :: "Room option"
  client_ws :: "'w option"
  sent_user :: "packet list"

text \<open>
  One call \<open>this.client.ws?.send_packet(p)\<close>, where \<open>p\<close> may read the manager: nothing
  is evaluated and nothing is sent when the manager is undefined.
\<close>

definition ws_send_packet ::
  "'w PacketManager \<Rightarrow> ('w \<Rightarrow> packet) \<Rightarrow> 'w ClientUser \<Rightarrow> 'w ClientUser" where
  "ws_send_packet M p u =
     (case client_ws u of
        None \<Rightarrow> u
      | Some w \<Rightarrow> u\<lparr>client_ws := Some (send_packet M (p w) w), sent_user := sent_user u @ [p w]\<rparr>)"

definition ClientUser_join :: "'w PacketManager \<Rightarrow> string \<Rightarrow> 'w ClientUser \<Rightarrow> 'w ClientUser" where
  "ClientUser_join M r u =
     ws_send_packet M
       (\<lambda>w. \<lparr>id_pkt = Some (clientId M w), command = ''joinroom'', data = Str r\<rparr>) u"

definition ClientUser_leave :: "'w PacketManager \<Rightarrow> 'w ClientUser \<Rightarrow> 'w ClientUser" where
  "ClientUser_leave M u =
     ws_send_packet M
       (\<lambda>w. \<lparr>id_pkt = Some (clientId M w), command = ''leaveroom'', data = Bool False\<rparr>) u"

definition ClientUser_setPresence2 ::
  "'w PacketManager \<Rightarrow> Presence \<Rightarrow> 'w ClientUser \<Rightarrow> 'w ClientUser" where
  "ClientUser_setPresence2 M d u =
     ws_send_packet M
       (\<lambda>w. \<lparr>id_pkt = None, command = ''social.presence'', data = Presence_object d\<rparr>) u"

datatype user_action = Join string | Leave | UpdatePresence Presence

fun perform_user :: "'w PacketManager \<Rightarrow> user_action \<Rightarrow> 'w ClientUser \<Rightarrow> 'w ClientUser" where
  "perform_user M (Join r) u = ClientUser_join M r u"
| "perform_user M Leave u = ClientUser_leave M u"
| "perform_user M (UpdatePresence d) u = ClientUser_setPresence2 M d u"

fun run_user :: "'w PacketManager \<Rightarrow> user_action list \<Rightarrow> 'w ClientUser \<Rightarrow> 'w ClientUser" where
  "run_user M [] u = u"
| "run_user M (a # as) u = run_user M as (perform_user M a u)"

section \<open>The id convention of outbound packets\<close>

definition acknowledged_commands :: "string list" where
  "acknowledged_commands =
     [''joinroom'', ''leaveroom'', ''chat'', ''switchbracket'', ''switchbrackethost'',
      ''updateconfig'']"

definition fire_and_forget_commands :: "string list" where
  "fire_and_forget_commands = [''social.presence'', ''social.dm'', ''social.invite'']"

text \<open>
  What section 6 of the spec says of a packet \<open>p\<close>: a command that expects an
  acknowledgement carries an id, a fire-and-forget command carries none.
\<close>

definition id_convention :: "packet \<Rightarrow> bool" where
  "id_convention p =
     ((command p \<in> set acknowledged_commands \<longrightarrow> id_pkt p \<noteq> None)
      \<and> (command p \<in> set fire_and_forget_commands \<longrightarrow> id_pkt p = None))"

section \<open>Sample states\<close>

text \<open>
  Concrete states to evaluate the code at: a client as the constructor leaves it, the
  same client after \<open>joinRoom("A")\<close>, an emitter with three registrations, and a
  ClientUser whose room is \<open>"A"\<close>, with and without a manager.
\<close>

definition new_client :: "(nat, int) Client" where
  "new_client = Client_new counting_manager None"

definition client_in_A :: "(nat, int) Client" where
  "client_in_A = Client_joinRoom counting_manager ''A'' new_client"

definition sample_emitter :: "nat EventEmitter" where
  "sample_emitter =
     subscribe_all [(''ready'', 1), (''message'', 2), (''ready'', 3)] \<lparr>events = []\<rparr>"

text \<open>
  Two behaviours of the callbacks of the sample emitter: none throws, and callback \<open>1\<close>
  throws whatever it is called with.
\<close>

definition never_throws :: "nat \<Rightarrow> jsval list \<Rightarrow> bool" where
  "never_throws f as = False"

definition first_throws :: "nat \<Rightarrow> jsval list \<Rightarrow> bool" where
  "first_throws f as = (f = 1)"

definition user_in_A :: "int ClientUser" where
  "user_in_A =
     \<lparr>handling_user = \<lparr>arr = ''1'', das = ''1'', sdf = ''5'', safelock = True\<rparr>,
      room_user = Some \<lparr>id_room = Some ''A''\<rparr>,
      client_ws = Some 7,
      sent_user = []\<rparr>"

definition user_without_manager :: "int ClientUser" where
  "user_without_manager = user_in_A\<lparr>client_ws := None\<rparr>"

text \<open>A sequence of calls that uses every method of the client, its user and its room.\<close>

definition every_action :: "action list" where
  "every_action =
     [Login ''t'', JoinRoom ''A'', Chat ''hi'', SelfMode Spectator, SetMode ''u1'' Player,
      SetConfig [(''meta.name'', Str ''R'')], DirectMessage ''u1'' ''yo'',
      SetPresence \<lparr>status = Away, detail = ''zen''\<rparr>, Invite ''u1'', JoinRoom ''B'',
      LeaveRoom, Destroy]"

section \<open>Properties of the EventEmitter\<close>

lemma events_subscribe_all:
  "events (subscribe_all rs e) = events e @ map (\<lambda>r. \<lparr>event = fst r, func = snd r\<rparr>) rs"
  by (induction rs arbitrary: e) (simp_all add: EventEmitter_on_def)

lemma registered_callbacks:
  "map func (filter (\<lambda>x. event x = ev) (map (\<lambda>r. \<lparr>event = fst r, func = snd r\<rparr>) rs)) =
     map snd (filter (\<lambda>r. fst r = ev) rs)"
  by (induction rs) simp_all

lemma sample_emitter_events:
  "events sample_emitter =
     [\<lparr>event = ''ready'', func = 1\<rparr>, \<lparr>event = ''message'', func = 2\<rparr>,
      \<lparr>event = ''ready'', func = 3\<rparr>]"
  by (simp add: sample_emitter_def EventEmitter_on_def)

lemma forEach_call_all:
  "list_all (\<lambda>x. \<not> throws (func x) (passed args)) xs \<Longrightarrow>
   forEach_call throws args xs = \<lparr>calls = map (\<lambda>x. (func x, passed args)) xs, threw = False\<rparr>"
  by (cases "truthy args"; induction xs) (simp_all add: passed_def Let_def)

lemma forEach_call_calls:
  "calls (forEach_call throws args xs) =
     map (\<lambda>f. (f, passed args))
       (takeWhile (\<lambda>f. \<not> throws f (passed args)) (map func xs)
        @ take 1 (dropWhile (\<lambda>f. \<not> throws f (passed args)) (map func xs)))"
  by (induction xs) (simp_all add: passed_def Let_def)

lemma forEach_call_threw:
  "threw (forEach_call throws args xs) = list_ex (\<lambda>x. throws (func x) (passed args)) xs"
  by (induction xs) (simp_all add: passed_def Let_def)



text \<open>
  C5. For every event name and every sequence of registrations made on a new emitter,
  \<open>emit\<close> calls, inside the call and in the order of registration, the callbacks
  registered under that name up to and with the first one that throws, and ends by an
  exception exactly when one of them throws. When none throws, the calls are exactly the
  callbacks registered under the name, as often as each was registered, and \<open>emit\<close>
  returns; registering a callback twice more then adds two calls of it to every emit of
  that name.
\<close>

theorem emit_calls_registered_until_throw:
  "(none_throws throws ev args (subscribe_all rs \<lparr>events = []\<rparr>) \<longrightarrow>
      map fst (calls (EventEmitter_emit throws ev args (subscribe_all rs \<lparr>events = []\<rparr>))) =
        map snd (filter (\<lambda>r. fst r = ev) rs)
      \<and> \<not> threw (EventEmitter_emit throws ev args (subscribe_all rs \<lparr>events = []\<rparr>)))
   \<and> map fst (calls (EventEmitter_emit throws ev args (subscribe_all rs \<lparr>events = []\<rparr>))) =
       takeWhile (\<lambda>f. \<not> throws f (passed args)) (map snd (filter (\<lambda>r. fst r = ev) rs))
       @ take 1 (dropWhile (\<lambda>f. \<not> throws f (passed args)) (map snd (filter (\<lambda>r. fst r = ev) rs)))
   \<and> threw (EventEmitter_emit throws ev args (subscribe_all rs \<lparr>events = []\<rparr>)) =
       list_ex (\<lambda>f. throws f (passed args)) (map snd (filter (\<lambda>r. fst r = ev) rs))
   \<and> (none_throws throws ev args (EventEmitter_on ev f (EventEmitter_on ev f e)) \<longrightarrow>
       length (filter (\<lambda>c. fst c = f)
         (calls (EventEmitter_emit throws ev args (EventEmitter_on ev f (EventEmitter_on ev f e))))) =
       length (filter (\<lambda>c. fst c = f) (calls (EventEmitter_emit throws ev args e))) + 2)"
proof -
  let ?new = "subscribe_all rs \<lparr>events = []\<rparr>"
  let ?fs = "map snd (filter (\<lambda>r. fst r = ev) rs)"
  have array: "map func (filter (\<lambda>x. event x = ev) (events ?new)) = ?fs"
    by (simp only: events_subscribe_all registered_callbacks EventEmitter.simps append_Nil)
  have upto: "map fst (calls (EventEmitter_emit throws ev args ?new)) =
       takeWhile (\<lambda>f. \<not> throws f (passed args)) ?fs
       @ take 1 (dropWhile (\<lambda>f. \<not> throws f (passed args)) ?fs)"
    unfolding array [symmetric]
    by (simp add: EventEmitter_emit_def forEach_call_calls comp_def)
  have ends: "threw (EventEmitter_emit throws ev args ?new) =
       list_ex (\<lambda>f. throws f (passed args)) ?fs"
    unfolding array [symmetric]
    by (simp add: EventEmitter_emit_def forEach_call_threw list_ex_iff)
  have quiet: "map fst (calls (EventEmitter_emit throws ev args ?new)) = ?fs
      \<and> \<not> threw (EventEmitter_emit throws ev args ?new)"
    if "none_throws throws ev args ?new"
  proof -
    from that have "forEach_call throws args (filter (\<lambda>x. event x = ev) (events ?new)) =
        \<lparr>calls = map (\<lambda>x. (func x, passed args)) (filter (\<lambda>x. event x = ev) (events ?new)),
         threw = False\<rparr>"
      unfolding none_throws_def by (rule forEach_call_all)
    then show ?thesis
      unfolding array [symmetric] by (simp add: EventEmitter_emit_def comp_def)
  qed
  have twice: "length (filter (\<lambda>c. fst c = f)
         (calls (EventEmitter_emit throws ev args (EventEmitter_on ev f (EventEmitter_on ev f e))))) =
       length (filter (\<lambda>c. fst c = f) (calls (EventEmitter_emit throws ev args e))) + 2"
    if "none_throws throws ev args (EventEmitter_on ev f (EventEmitter_on ev f e))"
  proof -
    from that have all: "list_all (\<lambda>x. \<not> throws (func x) (passed args))
        (filter (\<lambda>x. event x = ev) (events e))" and f: "\<not> throws f (passed args)"
      by (simp_all add: none_throws_def EventEmitter_on_def)
    from all f show ?thesis
      by (simp add: EventEmitter_emit_def EventEmitter_on_def forEach_call_all)
  qed
  from upto ends quiet twice show ?thesis
    by blast
qed

text \<open>
  C5 on the sample emitter with callbacks that do not throw: emitting \<open>ready\<close> calls
  the subscribers \<open>1\<close> and \<open>3\<close> in this order and returns; after \<open>1\<close> is registered
  twice more it is called three times.
\<close>

theorem emit_calls_registered_until_throw_witness:
  "none_throws never_throws ''ready'' Undefined sample_emitter
   \<and> calls (EventEmitter_emit never_throws ''ready'' Undefined sample_emitter) = [(1, []), (3, [])]
   \<and> \<not> threw (EventEmitter_emit never_throws ''ready'' Undefined sample_emitter)
   \<and> none_throws never_throws ''ready'' Undefined
       (EventEmitter_on ''ready'' 1 (EventEmitter_on ''ready'' 1 sample_emitter))
   \<and> calls (EventEmitter_emit never_throws ''ready'' Undefined
        (EventEmitter_on ''ready'' 1 (EventEmitter_on ''ready'' 1 sample_emitter))) =
       [(1, []), (3, []), (1, []), (1, [])]"
  using emit_calls_registered_until_throw
    [of never_throws "''ready''" Undefined "[(''ready'', 1), (''message'', 2), (''ready'', 3)]"
      1 sample_emitter]
  by (simp add: none_throws_def never_throws_def EventEmitter_emit_def EventEmitter_on_def
      sample_emitter_events)

text \<open>
  C5 fails when a subscriber throws: \<open>1\<close> and \<open>3\<close> are registered for \<open>ready\<close>,
  \<open>1\<close> throws, and emitting \<open>ready\<close> calls \<open>1\<close> only and ends by its exception;
  \<open>3\<close> is not called.
\<close>

theorem emit_stops_at_throwing_subscriber:
  "sample_emitter =
     subscribe_all [(''ready'', 1), (''message'', 2), (''ready'', 3)] \<lparr>events = []\<rparr>
   \<and> calls (EventEmitter_emit first_throws ''ready'' Undefined sample_emitter) = [(1, [])]
   \<and> threw (EventEmitter_emit first_throws ''ready'' Undefined sample_emitter)"
  by (simp add: sample_emitter_def first_throws_def EventEmitter_emit_def EventEmitter_on_def)



section \<open>Properties of the Client (src/index.ts)\<close>

lemma ws_send_fields:
  "outbound (ws_send W p c) = outbound c @ [p]"
  "ws (ws_send W p c) = send W p (ws c)"
  "room (ws_send W p c) = room c"
  "handling (ws_send W p c) = handling c"
  "token (ws_send W p c) = token c"
  "events (ws_send W p c) = events c"
  by (simp_all add: ws_send_def)

lemma local_state_ws_send: "local_state (ws_send W p c) = local_state c"
  by (simp add: local_state_def ws_send_fields)

lemma leaveRoom_fields:
  "outbound (Client_leaveRoom W c) =
     outbound c @ [\<lparr>id_pkt = Some (messageID W (ws c)), command = ''leaveroom'', data = Bool False\<rparr>]"
  "ws (Client_leaveRoom W c) =
     send W \<lparr>id_pkt = Some (messageID W (ws c)), command = ''leaveroom'', data = Bool False\<rparr> (ws c)"
  "id_room (room (Client_leaveRoom W c)) = None"
  "handling (Client_leaveRoom W c) = handling c"
  "token (Client_leaveRoom W c) = token c"
  by (simp_all add: Client_leaveRoom_def Let_def ws_send_fields)

lemma joinRoom_fields:
  "id_room (room (Client_joinRoom W r c)) = Some r"
  "handling (Client_joinRoom W r c) = handling c"
  "token (Client_joinRoom W r c) = token c"
  by (simp_all add: Client_joinRoom_def Let_def ws_send_fields leaveRoom_fields)

lemma joinRoom_outbound:
  "outbound (Client_joinRoom W r c) =
     (if truthy_id (id_room (room c))
      then outbound c @
        [\<lparr>id_pkt = Some (messageID W (ws c)), command = ''leaveroom'', data = Bool False\<rparr>,
         \<lparr>id_pkt = Some (messageID W (send W \<lparr>id_pkt = Some (messageID W (ws c)),
               command = ''leaveroom'', data = Bool False\<rparr> (ws c))),
           command = ''joinroom'', data = Str r\<rparr>]
      else outbound c @
        [\<lparr>id_pkt = Some (messageID W (ws c)), command = ''joinroom'', data = Str r\<rparr>])"
  by (simp add: Client_joinRoom_def Let_def ws_send_fields leaveRoom_fields)

lemma counting_manager_fields:
  "messageID counting_manager n = n"
  "send counting_manager p n = (case id_pkt p of None \<Rightarrow> n | Some i \<Rightarrow> n + 1)"
  "connect counting_manager n = 0"
  "disconnect counting_manager n = n"
  "new_manager counting_manager = 0"
  "clientId counting_packet_manager n = n"
  "send_packet counting_packet_manager p n = (case id_pkt p of None \<Rightarrow> n | Some i \<Rightarrow> n + 1)"
  by (simp_all add: counting_manager_def counting_packet_manager_def)

lemma new_client_fields:
  "outbound new_client = []"
  "ws new_client = 0"
  "id_room (room new_client) = None"
  "token new_client = None"
  "handling new_client = \<lparr>arr = ''1'', das = ''1'', sdf = ''5'', safelock = True\<rparr>"
  by (simp_all add: new_client_def Client_new_def counting_manager_fields)

lemma client_in_A_fields:
  "outbound client_in_A = [\<lparr>id_pkt = Some 0, command = ''joinroom'', data = Str ''A''\<rparr>]"
  "ws client_in_A = 1"
  "id_room (room client_in_A) = Some ''A''"
  by (simp_all add: client_in_A_def joinRoom_fields joinRoom_outbound new_client_fields
      Client_joinRoom_def ws_send_fields counting_manager_fields)

section \<open>Properties of the ClientUser (src/unnamed/part_000)\<close>

lemma send_packet_fields:
  "sent_user (ws_send_packet M p u) =
     (case client_ws u of None \<Rightarrow> sent_user u | Some w \<Rightarrow> sent_user u @ [p w])"
  "room_user (ws_send_packet M p u) = room_user u"
  "handling_user (ws_send_packet M p u) = handling_user u"
  by (simp_all add: ws_send_packet_def split: option.split)

lemma user_in_A_fields:
  "room_user user_in_A = Some \<lparr>id_room = Some ''A''\<rparr>"
  "client_ws user_in_A = Some 7"
  "sent_user user_in_A = []"
  by (simp_all add: user_in_A_def)

lemma user_without_manager_fields:
  "room_user user_without_manager = Some \<lparr>id_room = Some ''A''\<rparr>"
  "client_ws user_without_manager = None"
  "sent_user user_without_manager = []"
  by (simp_all add: user_without_manager_def user_in_A_def)

section \<open>Joining and leaving\<close>

text \<open>
  C1. \<open>Client.joinRoom(b)\<close>, called while \<open>Room.id\<close> is a non-empty string, hands exactly
  two packets to the manager: \<open>leaveroom\<close> first, then \<open>joinroom\<close> with data \<open>b\<close>, each
  with the manager's message id at its send. \<open>ClientUser.join(b)\<close> of part_000 sends the
  one packet \<open>joinroom\<close> when the client has a manager and nothing when it has none,
  whatever the user's room is.
\<close>

theorem joinRoom_leaves_before_joining:
  "(truthy_id (id_room (room c)) \<longrightarrow>
      outbound (Client_joinRoom W b c) = outbound c @
        [\<lparr>id_pkt = Some (messageID W (ws c)), command = ''leaveroom'', data = Bool False\<rparr>,
         \<lparr>id_pkt = Some (messageID W (send W \<lparr>id_pkt = Some (messageID W (ws c)),
               command = ''leaveroom'', data = Bool False\<rparr> (ws c))),
           command = ''joinroom'', data = Str b\<rparr>])
   \<and> sent_user (ClientUser_join M b u) =
       (case client_ws u of
          None \<Rightarrow> sent_user u
        | Some w \<Rightarrow> sent_user u @
            [\<lparr>id_pkt = Some (clientId M w), command = ''joinroom'', data = Str b\<rparr>])"
  by (simp add: joinRoom_outbound ClientUser_join_def send_packet_fields)

text \<open>
  C1 at a client joined to \<open>"A"\<close>: \<open>joinRoom("B")\<close> adds \<open>leaveroom\<close> and then
  \<open>joinroom("B")\<close> to the packets sent so far.
\<close>

theorem joinRoom_leaves_before_joining_witness:
  "id_room (room client_in_A) = Some ''A''
   \<and> truthy_id (id_room (room client_in_A))
   \<and> outbound (Client_joinRoom counting_manager ''B'' client_in_A) = outbound client_in_A @
       [\<lparr>id_pkt = Some 1, command = ''leaveroom'', data = Bool False\<rparr>,
        \<lparr>id_pkt = Some 2, command = ''joinroom'', data = Str ''B''\<rparr>]"
  using joinRoom_leaves_before_joining
    [of client_in_A counting_manager "''B''" counting_packet_manager user_in_A]
  by (simp add: client_in_A_fields counting_manager_fields)

text \<open>
  C1 fails for \<open>ClientUser.join\<close>: for a user whose room has the id \<open>"A"\<close>,
  \<open>join("B")\<close> sends one packet, \<open>joinroom("B")\<close>, and no \<open>leaveroom\<close>.
\<close>

theorem join_sends_no_leaveroom:
  "room_user user_in_A = Some \<lparr>id_room = Some ''A''\<rparr>
   \<and> sent_user user_in_A = []
   \<and> sent_user (ClientUser_join counting_packet_manager ''B'' user_in_A) =
       [\<lparr>id_pkt = Some 7, command = ''joinroom'', data = Str ''B''\<rparr>]"
  by (simp add: user_in_A_fields ClientUser_join_def send_packet_fields counting_manager_fields)

text \<open>
  C2. \<open>Client.joinRoom(r)\<close> sets \<open>Room.id\<close> to \<open>r\<close> itself, in the same call as the send
  and with no acknowledgement: the call sends \<open>joinroom\<close> with data \<open>r\<close> and the
  manager's message id (after a \<open>leaveroom\<close> when \<open>Room.id\<close> was a non-empty string)
  and nothing else, and when it returns \<open>Room.id\<close> is \<open>r\<close>; handling and token are as
  before. \<open>ClientUser.join(r)\<close> of part_000 sends \<open>joinroom\<close> with data \<open>r\<close> when the
  client has a manager and nothing when it has none, and changes neither the user's room
  nor its handling.
\<close>

theorem joinRoom_sets_id_at_once:
  "id_room (room (Client_joinRoom W r c)) = Some r
   \<and> outbound (Client_joinRoom W r c) =
       (if truthy_id (id_room (room c))
        then outbound c @
          [\<lparr>id_pkt = Some (messageID W (ws c)), command = ''leaveroom'', data = Bool False\<rparr>,
           \<lparr>id_pkt = Some (messageID W (send W \<lparr>id_pkt = Some (messageID W (ws c)),
                 command = ''leaveroom'', data = Bool False\<rparr> (ws c))),
             command = ''joinroom'', data = Str r\<rparr>]
        else outbound c @
          [\<lparr>id_pkt = Some (messageID W (ws c)), command = ''joinroom'', data = Str r\<rparr>])
   \<and> command (last (outbound (Client_joinRoom W r c))) = ''joinroom''
   \<and> data (last (outbound (Client_joinRoom W r c))) = Str r
   \<and> handling (Client_joinRoom W r c) = handling c
   \<and> token (Client_joinRoom W r c) = token c
   \<and> sent_user (ClientUser_join M r u) =
       (case client_ws u of
          None \<Rightarrow> sent_user u
        | Some w \<Rightarrow> sent_user u @
            [\<lparr>id_pkt = Some (clientId M w), command = ''joinroom'', data = Str r\<rparr>])
   \<and> room_user (ClientUser_join M r u) = room_user u
   \<and> handling_user (ClientUser_join M r u) = handling_user u"
proof -
  have sent: "outbound (Client_joinRoom W r c) =
       (if truthy_id (id_room (room c))
        then outbound c @
          [\<lparr>id_pkt = Some (messageID W (ws c)), command = ''leaveroom'', data = Bool False\<rparr>,
           \<lparr>id_pkt = Some (messageID W (send W \<lparr>id_pkt = Some (messageID W (ws c)),
                 command = ''leaveroom'', data = Bool False\<rparr> (ws c))),
             command = ''joinroom'', data = Str r\<rparr>]
        else outbound c @
          [\<lparr>id_pkt = Some (messageID W (ws c)), command = ''joinroom'', data = Str r\<rparr>])"
    by (rule joinRoom_outbound)
  have final: "command (last (outbound (Client_joinRoom W r c))) = ''joinroom''
      \<and> data (last (outbound (Client_joinRoom W r c))) = Str r"
    by (simp add: joinRoom_outbound)
  have local: "id_room (room (Client_joinRoom W r c)) = Some r
      \<and> handling (Client_joinRoom W r c) = handling c
      \<and> token (Client_joinRoom W r c) = token c"
    by (simp add: joinRoom_fields)
  have user: "sent_user (ClientUser_join M r u) =
       (case client_ws u of
          None \<Rightarrow> sent_user u
        | Some w \<Rightarrow> sent_user u @
            [\<lparr>id_pkt = Some (clientId M w), command = ''joinroom'', data = Str r\<rparr>])
      \<and> room_user (ClientUser_join M r u) = room_user u
      \<and> handling_user (ClientUser_join M r u) = handling_user u"
    by (simp add: ClientUser_join_def send_packet_fields)
  from sent final local user show ?thesis
    by blast
qed

text \<open>
  C2 fails for \<open>Client.joinRoom\<close>: on a new client, whose \<open>Room.id\<close> is unset,
  \<open>joinRoom("B")\<close> returns with \<open>Room.id\<close> equal to \<open>"B"\<close>; no inbound packet was
  processed.
\<close>

theorem joinRoom_sets_id_without_ack:
  "id_room (room new_client) = None
   \<and> id_room (room (Client_joinRoom counting_manager ''B'' new_client)) = Some ''B''"
  by (simp add: new_client_fields joinRoom_fields)

text \<open>
  C3. \<open>Client.leaveRoom()\<close> sends \<open>leaveroom\<close> and clears \<open>Room.id\<close> itself, in the same
  call: when it returns, one more packet has been sent, \<open>leaveroom\<close>, \<open>Room.id\<close> is
  unset, and handling and token are as before. \<open>ClientUser.leave()\<close> of part_000 sends
  \<open>leaveroom\<close> when the client has a manager, nothing otherwise, and changes neither the
  user's room nor its handling.
\<close>

theorem leaveRoom_clears_id_at_once:
  "map command (outbound (Client_leaveRoom W c)) = map command (outbound c) @ [''leaveroom'']
   \<and> local_state (Client_leaveRoom W c) = (handling c, token c, None)
   \<and> sent_user (ClientUser_leave M u) =
       (case client_ws u of
          None \<Rightarrow> sent_user u
        | Some w \<Rightarrow> sent_user u @
            [\<lparr>id_pkt = Some (clientId M w), command = ''leaveroom'', data = Bool False\<rparr>])
   \<and> room_user (ClientUser_leave M u) = room_user u
   \<and> handling_user (ClientUser_leave M u) = handling_user u"
  by (simp add: leaveRoom_fields local_state_def ClientUser_leave_def send_packet_fields)

text \<open>
  C3 fails for \<open>Client.leaveRoom\<close>: on a client whose \<open>Room.id\<close> is \<open>"A"\<close>,
  \<open>leaveRoom()\<close> returns with \<open>Room.id\<close> unset; no inbound packet was processed.
\<close>

theorem leaveRoom_clears_id_without_ack:
  "id_room (room client_in_A) = Some ''A''
   \<and> id_room (room (Client_leaveRoom counting_manager client_in_A)) = None"
  by (simp add: client_in_A_fields leaveRoom_fields)

text \<open>
  C10. \<open>Client.leaveRoom()\<close> tests nothing: in every state, also with \<open>Room.id\<close> unset,
  it sends exactly one packet, \<open>leaveroom\<close> with the manager's message id and data
  \<open>false\<close>, and leaves \<open>Room.id\<close> unset. A second call right after the first sends a
  second packet and leaves the local state (handling, token, \<open>Room.id\<close>) as the first
  call left it.
\<close>

theorem leaveRoom_unguarded_idempotent:
  "outbound (Client_leaveRoom W c) =
     outbound c @
       [\<lparr>id_pkt = Some (messageID W (ws c)), command = ''leaveroom'', data = Bool False\<rparr>]
   \<and> id_room (room (Client_leaveRoom W c)) = None
   \<and> local_state (Client_leaveRoom W (Client_leaveRoom W c)) = local_state (Client_leaveRoom W c)
   \<and> length (outbound (Client_leaveRoom W (Client_leaveRoom W c))) = length (outbound c) + 2"
proof -
  let ?c1 = "Client_leaveRoom W c"
  have sent: "outbound ?c1 =
     outbound c @
       [\<lparr>id_pkt = Some (messageID W (ws c)), command = ''leaveroom'', data = Bool False\<rparr>]"
    by (rule leaveRoom_fields(1))
  have cleared: "id_room (room ?c1) = None"
    by (rule leaveRoom_fields(3))
  have same: "local_state (Client_leaveRoom W ?c1) = local_state ?c1"
    by (simp add: local_state_def leaveRoom_fields)
  have "length (outbound (Client_leaveRoom W ?c1)) = length (outbound ?c1) + 1"
    by (simp add: leaveRoom_fields(1))
  then have twice: "length (outbound (Client_leaveRoom W ?c1)) = length (outbound c) + 2"
    by (simp add: sent)
  from sent cleared same twice show ?thesis
    by blast
qed

section \<open>Room messages\<close>

text \<open>
  C4. \<open>Room.message(msg)\<close> sends a \<open>chat\<close> packet with the manager's message id and
  data \<open>msg\<close> in every state, whether \<open>Room.id\<close> is set or not; it raises no error and
  changes no local state.
\<close>

theorem Room_message_always_sends:
  "outbound (Room_message W msg c) =
     outbound c @ [\<lparr>id_pkt = Some (messageID W (ws c)), command = ''chat'', data = Str msg\<rparr>]
   \<and> local_state (Room_message W msg c) = local_state c"
  by (simp add: Room_message_def ws_send_fields local_state_ws_send)

text \<open>
  C4 fails: on a new client, whose \<open>Room.id\<close> is unset, \<open>Room.message("hi")\<close> sends
  the \<open>chat\<close> packet.
\<close>

theorem message_sent_outside_a_room:
  "id_room (room new_client) = None
   \<and> outbound new_client = []
   \<and> outbound (Room_message counting_manager ''hi'' new_client) =
       [\<lparr>id_pkt = Some 0, command = ''chat'', data = Str ''hi''\<rparr>]"
  by (simp add: new_client_fields Room_message_def ws_send_fields counting_manager_fields)

section \<open>Handling\<close>

lemma perform_handling: "handling (perform W a c) = handling c"
  by (cases a)
    (simp_all add: Client_login_def Client_destroy_def joinRoom_fields leaveRoom_fields
      ClientUser_message_def ClientUser_setPresence_def ClientUser_invite_def Room_message_def
      Room_selfMode_def Room_setMode_def Room_setConfig_def ws_send_fields)

lemma run_handling: "handling (run W as c) = handling c"
  by (induction as arbitrary: c) (simp_all add: perform_handling)

text \<open>
  C7. A client constructed without a handling argument has the handling
  \<open>{arr: "1", das: "1", sdf: "5", safelock: true}\<close> (one constructed with an argument
  has that argument), and keeps it through every sequence of calls of its methods.
\<close>

theorem default_handling:
  "handling (Client_new W None) = \<lparr>arr = ''1'', das = ''1'', sdf = ''5'', safelock = True\<rparr>
   \<and> handling (Client_new W (Some h)) = h
   \<and> handling (run W as (Client_new W None)) =
       \<lparr>arr = ''1'', das = ''1'', sdf = ''5'', safelock = True\<rparr>"
proof -
  have made: "handling (Client_new W None) =
      \<lparr>arr = ''1'', das = ''1'', sdf = ''5'', safelock = True\<rparr>"
    by (simp add: Client_new_def)
  have given: "handling (Client_new W (Some h)) = h"
    by (simp add: Client_new_def)
  have kept: "handling (run W as (Client_new W None)) =
      \<lparr>arr = ''1'', das = ''1'', sdf = ''5'', safelock = True\<rparr>"
    by (simp add: run_handling Client_new_def)
  from made given kept show ?thesis
    by blast
qed

section \<open>Social commands\<close>

text \<open>
  C8. \<open>message(recipient, content)\<close>, \<open>invite(user)\<close> and \<open>setPresence(data)\<close> of
  src/index.ts each send their one packet (\<open>social.dm\<close>, \<open>social.invite\<close>,
  \<open>social.presence\<close>), without id, and leave handling, token and \<open>Room.id\<close> as they
  were. \<open>setPresence(data)\<close> of part_000 sends \<open>social.presence\<close> when the client has a
  manager and nothing when it has none, and leaves the user's handling and room as they
  were.
\<close>

theorem social_commands_frame:
  "outbound (ClientUser_message W recipient content c) =
     outbound c @ [\<lparr>id_pkt = None, command = ''social.dm'',
                    data = Obj [(''recipient'', Str recipient), (''msg'', Str content)]\<rparr>]
   \<and> local_state (ClientUser_message W recipient content c) = local_state c
   \<and> outbound (ClientUser_invite W user c) =
       outbound c @ [\<lparr>id_pkt = None, command = ''social.invite'', data = Str user\<rparr>]
   \<and> local_state (ClientUser_invite W user c) = local_state c
   \<and> outbound (ClientUser_setPresence W d c) =
       outbound c @ [\<lparr>id_pkt = None, command = ''social.presence'', data = Presence_object d\<rparr>]
   \<and> local_state (ClientUser_setPresence W d c) = local_state c
   \<and> sent_user (ClientUser_setPresence2 M d u) =
       (case client_ws u of
          None \<Rightarrow> sent_user u
        | Some w \<Rightarrow> sent_user u @
            [\<lparr>id_pkt = None, command = ''social.presence'', data = Presence_object d\<rparr>])
   \<and> handling_user (ClientUser_setPresence2 M d u) = handling_user u
   \<and> room_user (ClientUser_setPresence2 M d u) = room_user u"
  by (simp add: ClientUser_message_def ClientUser_invite_def ClientUser_setPresence_def
      ClientUser_setPresence2_def ws_send_fields local_state_ws_send send_packet_fields)

text \<open>
  C8 fails for \<open>setPresence\<close> of part_000 in a state without a manager: the call sends
  nothing.
\<close>

theorem setPresence_without_manager:
  "client_ws user_without_manager = None
   \<and> sent_user (ClientUser_setPresence2 counting_packet_manager
        \<lparr>status = Online, detail = ''menus''\<rparr> user_without_manager) = []"
  by (simp add: user_without_manager_fields ClientUser_setPresence2_def send_packet_fields)

section \<open>Message ids\<close>

lemma id_convention_packets:
  "id_convention \<lparr>id_pkt = Some i, command = ''joinroom'', data = d\<rparr>"
  "id_convention \<lparr>id_pkt = Some i, command = ''leaveroom'', data = d\<rparr>"
  "id_convention \<lparr>id_pkt = Some i, command = ''chat'', data = d\<rparr>"
  "id_convention \<lparr>id_pkt = Some i, command = ''switchbracket'', data = d\<rparr>"
  "id_convention \<lparr>id_pkt = Some i, command = ''switchbrackethost'', data = d\<rparr>"
  "id_convention \<lparr>id_pkt = Some i, command = ''updateconfig'', data = d\<rparr>"
  "id_convention \<lparr>id_pkt = None, command = ''social.dm'', data = d\<rparr>"
  "id_convention \<lparr>id_pkt = None, command = ''social.presence'', data = d\<rparr>"
  "id_convention \<lparr>id_pkt = None, command = ''social.invite'', data = d\<rparr>"
  by (simp_all add: id_convention_def acknowledged_commands_def fire_and_forget_commands_def)

lemma perform_id_convention:
  "list_all id_convention (outbound c) \<Longrightarrow> list_all id_convention (outbound (perform W a c))"
  by (cases a)
    (simp_all add: Client_login_def Client_destroy_def joinRoom_outbound leaveRoom_fields
      ClientUser_message_def ClientUser_setPresence_def ClientUser_invite_def Room_message_def
      Room_selfMode_def Room_setMode_def Room_setConfig_def ws_send_fields id_convention_packets)

lemma run_id_convention:
  "list_all id_convention (outbound c) \<Longrightarrow> list_all id_convention (outbound (run W as c))"
  by (induction as arbitrary: c) (simp_all add: perform_id_convention)

lemma perform_user_id_convention:
  "list_all id_convention (sent_user u) \<Longrightarrow>
   list_all id_convention (sent_user (perform_user M a u))"
  by (cases a)
    (simp_all add: ClientUser_join_def ClientUser_leave_def ClientUser_setPresence2_def
      send_packet_fields id_convention_packets split: option.split)

lemma run_user_id_convention:
  "list_all id_convention (sent_user u) \<Longrightarrow>
   list_all id_convention (sent_user (run_user M as u))"
  by (induction as arbitrary: u) (simp_all add: perform_user_id_convention)

text \<open>
  C6. Every packet a client sends, in any sequence of calls of its methods after its
  construction, follows the id convention: if its command is one of \<open>joinroom\<close>,
  \<open>leaveroom\<close>, \<open>chat\<close>, \<open>switchbracket\<close>, \<open>switchbrackethost\<close>, \<open>updateconfig\<close> it
  carries an id (a number), and if its command is one of \<open>social.presence\<close>, \<open>social.dm\<close>,
  \<open>social.invite\<close> it carries none. The same holds for the packets the ClientUser of
  part_000 sends.
\<close>

theorem outbound_ids:
  "list_all id_convention (outbound (run W as (Client_new W h)))
   \<and> list_all id_convention (sent_user (run_user M us (u\<lparr>sent_user := []\<rparr>)))"
proof
  have "list_all id_convention (outbound (Client_new W h))"
    by (simp add: Client_new_def)
  then show "list_all id_convention (outbound (run W as (Client_new W h)))"
    by (rule run_id_convention)
next
  have "list_all id_convention (sent_user (u\<lparr>sent_user := []\<rparr>))"
    by simp
  then show "list_all id_convention (sent_user (run_user M us (u\<lparr>sent_user := []\<rparr>)))"
    by (rule run_user_id_convention)
qed

text \<open>
  C6 on a sequence that uses every method: the packets sent, with their ids, and the
  convention on them.
\<close>

theorem outbound_ids_witness:
  "outbound (run counting_manager every_action new_client) =
     [\<lparr>id_pkt = Some 0, command = ''joinroom'', data = Str ''A''\<rparr>,
      \<lparr>id_pkt = Some 1, command = ''chat'', data = Str ''hi''\<rparr>,
      \<lparr>id_pkt = Some 2, command = ''switchbracket'', data = Str ''spectator''\<rparr>,
      \<lparr>id_pkt = Some 3, command = ''switchbrackethost'',
        data = Obj [(''uid'', Str ''u1''), (''bracket'', Str ''player'')]\<rparr>,
      \<lparr>id_pkt = Some 4, command = ''updateconfig'',
        data = Arr [Obj [(''index'', Str ''meta.name''), (''value'', Str ''R'')]]\<rparr>,
      \<lparr>id_pkt = None, command = ''social.dm'',
        data = Obj [(''recipient'', Str ''u1''), (''msg'', Str ''yo'')]\<rparr>,
      \<lparr>id_pkt = None, command = ''social.presence'',
        data = Obj [(''status'', Str ''away''), (''detail'', Str ''zen'')]\<rparr>,
      \<lparr>id_pkt = None, command = ''social.invite'', data = Str ''u1''\<rparr>,
      \<lparr>id_pkt = Some 5, command = ''leaveroom'', data = Bool False\<rparr>,
      \<lparr>id_pkt = Some 6, command = ''joinroom'', data = Str ''B''\<rparr>,
      \<lparr>id_pkt = Some 7, command = ''leaveroom'', data = Bool False\<rparr>]
   \<and> list_all id_convention (outbound (run counting_manager every_action new_client))
   \<and> list_all id_convention
       (sent_user (run_user counting_packet_manager
          [Join ''B'', UpdatePresence \<lparr>status = Busy, detail = []\<rparr>, Leave]
          (user_in_A\<lparr>sent_user := []\<rparr>)))"
proof -
  have sent: "outbound (run counting_manager every_action new_client) =
     [\<lparr>id_pkt = Some 0, command = ''joinroom'', data = Str ''A''\<rparr>,
      \<lparr>id_pkt = Some 1, command = ''chat'', data = Str ''hi''\<rparr>,
      \<lparr>id_pkt = Some 2, command = ''switchbracket'', data = Str ''spectator''\<rparr>,
      \<lparr>id_pkt = Some 3, command = ''switchbrackethost'',
        data = Obj [(''uid'', Str ''u1''), (''bracket'', Str ''player'')]\<rparr>,
      \<lparr>id_pkt = Some 4, command = ''updateconfig'',
        data = Arr [Obj [(''index'', Str ''meta.name''), (''value'', Str ''R'')]]\<rparr>,
      \<lparr>id_pkt = None, command = ''social.dm'',
        data = Obj [(''recipient'', Str ''u1''), (''msg'', Str ''yo'')]\<rparr>,
      \<lparr>id_pkt = None, command = ''social.presence'',
        data = Obj [(''status'', Str ''away''), (''detail'', Str ''zen'')]\<rparr>,
      \<lparr>id_pkt = None, command = ''social.invite'', data = Str ''u1''\<rparr>,
      \<lparr>id_pkt = Some 5, command = ''leaveroom'', data = Bool False\<rparr>,
      \<lparr>id_pkt = Some 6, command = ''joinroom'', data = Str ''B''\<rparr>,
      \<lparr>id_pkt = Some 7, command = ''leaveroom'', data = Bool False\<rparr>]"
    by (simp add: every_action_def new_client_def Client_new_def Client_login_def
        Client_destroy_def Client_joinRoom_def Client_leaveRoom_def ClientUser_message_def
        ClientUser_setPresence_def ClientUser_invite_def Room_message_def Room_selfMode_def
        Room_setMode_def Room_setConfig_def ws_send_def Presence_object_def
        counting_manager_fields)
  have ids: "list_all id_convention (outbound (run counting_manager every_action new_client))
   \<and> list_all id_convention
       (sent_user (run_user counting_packet_manager
          [Join ''B'', UpdatePresence \<lparr>status = Busy, detail = []\<rparr>, Leave]
          (user_in_A\<lparr>sent_user := []\<rparr>)))"
    unfolding new_client_def by (rule outbound_ids)
  from sent ids show ?thesis
    by (rule conjI)
qed

end
